theory Spec2Isabelle
  imports Main "HOL-Library.Sublist"
begin

section \<open>Python strings\<close>

text \<open>
  A Python \<open>str\<close> is modelled as a \<open>string\<close> whose characters are the code points
  below 256. On that range \<open>str.lower\<close> moves \<open>A\<close>..\<open>Z\<close> and the upper-case letters
  of Latin-1 (code points 192 to 222 without the multiplication sign 215) up by 32 and
  leaves every other character alone; \<open>str.split()\<close> and \<open>str.strip()\<close> treat the
  code points 9 to 13, 28 to 32, 133 and 160 as whitespace.
\<close>

definition lower_char :: "char \<Rightarrow> char" where
  "lower_char c = (let n = (of_char c :: nat) in
     if (65 \<le> n \<and> n \<le> 90) \<or> (192 \<le> n \<and> n \<le> 222 \<and> n \<noteq> 215)
     then char_of (n + 32) else c)"

definition str_lower :: "string \<Rightarrow> string" where
  "str_lower s = map lower_char s"

definition isspace :: "char \<Rightarrow> bool" where
  "isspace c = (let n = (of_char c :: nat) in
     (9 \<le> n \<and> n \<le> 13) \<or> (28 \<le> n \<and> n \<le> 32) \<or> n = 133 \<or> n = 160)"

text \<open>\<open>s.startswith(p)\<close>, and \<open>sub in s\<close> as a scan over the start positions of \<open>s\<close>.\<close>

fun startswith :: "string \<Rightarrow> string \<Rightarrow> bool" where
  "startswith s [] = True"
| "startswith [] (p # ps) = False"
| "startswith (c # cs) (p # ps) = (c = p \<and> startswith cs ps)"

fun contains :: "string \<Rightarrow> string \<Rightarrow> bool" where
  "contains sub [] = (sub = [])"
| "contains sub (c # cs) = (startswith (c # cs) sub \<or> contains sub cs)"

text \<open>
  \<open>s.split()\<close>: the maximal runs of characters that are not whitespace, in order;
  \<open>w\<close> is the run being read.
\<close>

fun split_from :: "string \<Rightarrow> string \<Rightarrow> string list" where
  "split_from w [] = (if w = [] then [] else [w])"
| "split_from w (c # cs) =
     (if isspace c then (if w = [] then split_from [] cs else w # split_from [] cs)
      else split_from (w @ [c]) cs)"

definition str_split :: "string \<Rightarrow> string list" where
  "str_split s = split_from [] s"

definition str_strip :: "string \<Rightarrow> string" where
  "str_strip s = rev (dropWhile isspace (rev (dropWhile isspace s)))"

fun str_join :: "string \<Rightarrow> string list \<Rightarrow> string" where
  "str_join sep [] = []"
| "str_join sep [x] = x"
| "str_join sep (x # y # ys) = x @ sep @ str_join sep (y # ys)"

text \<open>\<open>xs[-n:]\<close>: the last \<open>n\<close> elements, the whole list when it is shorter.\<close>

definition last_n :: "nat \<Rightarrow> 'a list \<Rightarrow> 'a list" where
  "last_n n xs = drop (length xs - n) xs"

text \<open>\<open>str(n)\<close> of a natural number, as the f-strings print indices.\<close>

definition digit_char :: "nat \<Rightarrow> char" where
  "digit_char d = ''0123456789'' ! d"

fun str_nat :: "nat \<Rightarrow> string" where
  "str_nat n = (if n < 10 then [digit_char n]
                else str_nat (n div 10) @ [digit_char (n mod 10)])"

declare str_nat.simps [simp del]

text \<open>
  A dictionary value that the code obtains with \<open>dict.get\<close> is a string or \<open>None\<close>;
  \<open>truthy\<close> is Python's truth value of it and \<open>py_str\<close> what an f-string prints.
\<close>

datatype pyval = PyNone | PyStr string

fun truthy :: "pyval \<Rightarrow> bool" where
  "truthy PyNone = False"
| "truthy (PyStr s) = (s \<noteq> [])"

fun py_str :: "pyval \<Rightarrow> string" where
  "py_str PyNone = ''None''"
| "py_str (PyStr s) = s"


section \<open>adgm_checklist.py\<close>

definition COMPANY_INCORPORATION_CHECKLIST :: "string list" where
  "COMPANY_INCORPORATION_CHECKLIST =
     [''Articles of Association'',
      ''Memorandum of Association'',
      ''Board Resolution Template'',
      ''Incorporation Application Form'',
      ''Register of Members and Directors'',
      ''UBO Declaration Form'']"

definition ADGM_CITATIONS :: "string \<rightharpoonup> string" where
  "ADGM_CITATIONS =
     [''companies_regulation_jurisdiction'' \<mapsto> ''ADGM Companies Regulations 2020, Art. 6'',
      ''ubo_regulation'' \<mapsto> ''ADGM UBO Rules (example placeholder)'']"

text \<open>
  Python reads \<open>a or b and c\<close> as \<open>a or (b and c)\<close>, which is how the first test is
  written here.
\<close>

definition detect_doc_type_by_text :: "string \<Rightarrow> string" where
  "detect_doc_type_by_text text =
     (let txt = str_lower text in
      if contains ''articles of association'' txt
         \<or> (contains ''article'' txt \<and> contains ''association'' txt)
      then ''Articles of Association''
      else if contains ''memorandum of association'' txt \<or> contains ''memorandum'' txt
      then ''Memorandum of Association''
      else if contains ''board resolution'' txt
      then ''Board Resolution Template''
      else if contains ''register of members'' txt \<or> contains ''register of directors'' txt
      then ''Register of Members and Directors''
      else if contains ''ubo'' txt \<or> contains ''ultimate beneficial owner'' txt
      then ''UBO Declaration Form''
      else if contains ''application for incorporation'' txt
              \<or> contains ''incorporation application'' txt
      then ''Incorporation Application Form''
      else if contains ''agreement'' txt
      then ''Commercial Agreement''
      else ''Unknown'')"

text \<open>
  The dictionaries that the three rules return have the keys \<open>issue\<close>, \<open>severity\<close> and
  \<open>suggestion\<close>, and the jurisdiction rule adds \<open>citation_key\<close>: \<open>f_citation_key\<close> is
  \<open>None\<close> where the dictionary has no such key.
\<close>

record finding =
  f_issue :: string
  f_severity :: string
  f_suggestion :: string
  f_citation_key :: "string option"

definition federal_courts_finding :: finding where
  "federal_courts_finding =
     \<lparr>f_issue = ''References UAE Federal Courts instead of ADGM jurisdiction.'',
      f_severity = ''High'',
      f_suggestion = ''Replace jurisdiction clause to reference ADGM Courts/Jurisdiction.'',
      f_citation_key = Some ''companies_regulation_jurisdiction''\<rparr>"

definition missing_adgm_finding :: finding where
  "missing_adgm_finding =
     \<lparr>f_issue = ''Jurisdiction clause does not explicitly reference ADGM.'',
      f_severity = ''Medium'',
      f_suggestion =
        ''Update jurisdiction/governing law clause to specify '' @ [CHR 0x27] @ ''ADGM''
          @ [CHR 0x27] @ ''.'',
      f_citation_key = Some ''companies_regulation_jurisdiction''\<rparr>"

definition check_jurisdiction_paragraph :: "string \<Rightarrow> finding list" where
  "check_jurisdiction_paragraph paragraph_text =
     (let lower = str_lower paragraph_text in
      (if contains ''u.a.e federal courts'' lower \<or> contains ''federal courts of the uae'' lower
       then [federal_courts_finding] else [])
      @ (if \<not> contains ''adgm'' lower
            \<and> (contains ''jurisdiction'' lower \<or> contains ''governing law'' lower)
         then [missing_adgm_finding] else []))"

definition missing_signature_finding :: finding where
  "missing_signature_finding =
     \<lparr>f_issue = ''No signature block or signatory section detected near end of document.'',
      f_severity = ''High'',
      f_suggestion = ''Add signatory block with name, designation and date.'',
      f_citation_key = None\<rparr>"

definition detect_missing_signature :: "string list \<Rightarrow> finding list" where
  "detect_missing_signature paragraphs =
     (let joined = str_lower (str_join ''\<newline>'' (last_n 10 paragraphs)) in
      if \<not> contains ''signature'' joined \<and> \<not> contains ''signed'' joined
         \<and> \<not> contains ''authorized signatory'' joined
      then [missing_signature_finding]
      else [])"

definition ambig_markers :: "string list" where
  "ambig_markers =
     [''may'', ''best efforts'', ''endeavour to'', ''possibly'', ''subject to'',
      ''to the extent possible'']"

definition ambiguous_finding :: "string \<Rightarrow> finding" where
  "ambiguous_finding marker =
     \<lparr>f_issue = ''Ambiguous/non-binding language found ('' @ [CHR 0x27] @ marker
                 @ [CHR 0x27] @ '')'',
      f_severity = ''Low'',
      f_suggestion =
        ''Consider replacing ambiguous phrasing with clear, binding obligations.'',
      f_citation_key = None\<rparr>"

text \<open>The \<open>for marker in ambig_markers\<close> loop, which returns at the first hit.\<close>

fun ambiguous_loop :: "string \<Rightarrow> string list \<Rightarrow> finding list" where
  "ambiguous_loop lower [] = []"
| "ambiguous_loop lower (marker # markers) =
     (if contains marker lower \<and> length (str_split lower) < 200
      then [ambiguous_finding marker]
      else ambiguous_loop lower markers)"

definition detect_ambiguous_language :: "string \<Rightarrow> finding list" where
  "detect_ambiguous_language paragraph_text =
     ambiguous_loop (str_lower paragraph_text) ambig_markers"


section \<open>docx_utils.py\<close>

text \<open>
  A document body is the list of elements that \<open>python-docx\<close> is asked to add, one
  constructor for each call the code makes: \<open>add_paragraph(text)\<close>, a paragraph holding
  one bold run, a paragraph restyled as \<open>Intense Quote\<close>, \<open>add_page_break()\<close> and
  \<open>add_heading(text, level)\<close>.

  The files of the workspace directory are a map from file name to document body, with
  no entry where the file is absent or cannot be parsed as a document: opening such a
  file raises, which is the result \<open>Inl (ReadError name)\<close>.

  The library is not part of the repository, and two of its behaviours are parameters of
  the functions below: \<open>texts\<close> is what \<open>[p.text for p in Document(path).paragraphs]\<close>
  reads from a body (the library stores a page break as a paragraph, so a reader may
  return a text for it), and \<open>accepts\<close> tells which strings the library takes as the
  text of a paragraph, run or heading; on any other string it raises \<open>ValueError\<close>.
\<close>

datatype element =
    Paragraph string
  | BoldParagraph string
  | QuoteParagraph string
  | PageBreak
  | Heading string nat

type_synonym docx = "element list"

type_synonym files = "string \<rightharpoonup> docx"

datatype error = ReadError string | ValueError

definition Document :: "files \<Rightarrow> string \<Rightarrow> error + docx" where
  "Document fs path = (case fs path of None \<Rightarrow> Inl (ReadError path) | Some doc \<Rightarrow> Inr doc)"

definition extract_docx_paragraphs ::
  "(docx \<Rightarrow> string list) \<Rightarrow> files \<Rightarrow> string \<Rightarrow> error + string list" where
  "extract_docx_paragraphs texts fs path =
     (case Document fs path of
        Inl e \<Rightarrow> Inl e
      | Inr doc \<Rightarrow> Inr (map str_strip (filter (\<lambda>t. str_strip t \<noteq> []) (texts doc))))"

text \<open>
  The records that \<open>summarize_issues\<close> builds. \<open>suggestion\<close> holds the result of
  \<open>dict.get\<close>; \<open>citation_key\<close> is \<open>None\<close> where the record has no such key (the
  ambiguity and signature records) and the result of \<open>dict.get\<close> otherwise.
\<close>

record issue_rec =
  document :: string
  section_ref :: string
  issue :: string
  severity :: string
  suggestion :: pyval
  citation_key :: "pyval option"

definition get_citation_key :: "finding \<Rightarrow> pyval" where
  "get_citation_key f = (case f_citation_key f of None \<Rightarrow> PyNone | Some k \<Rightarrow> PyStr k)"

definition jurisdiction_rec :: "string \<Rightarrow> nat \<Rightarrow> finding \<Rightarrow> issue_rec" where
  "jurisdiction_rec filename idx ji =
     \<lparr>document = filename,
      section_ref = ''Paragraph '' @ str_nat (idx + 1),
      issue = f_issue ji,
      severity = f_severity ji,
      suggestion = PyStr (f_suggestion ji),
      citation_key = Some (get_citation_key ji)\<rparr>"

definition ambiguity_rec :: "string \<Rightarrow> nat \<Rightarrow> finding \<Rightarrow> issue_rec" where
  "ambiguity_rec filename idx ai =
     \<lparr>document = filename,
      section_ref = ''Paragraph '' @ str_nat (idx + 1),
      issue = f_issue ai,
      severity = f_severity ai,
      suggestion = PyStr (f_suggestion ai),
      citation_key = None\<rparr>"

definition signature_rec :: "string \<Rightarrow> finding \<Rightarrow> issue_rec" where
  "signature_rec filename m =
     \<lparr>document = filename,
      section_ref = ''End of Document'',
      issue = f_issue m,
      severity = f_severity m,
      suggestion = PyStr (f_suggestion m),
      citation_key = None\<rparr>"

text \<open>The body of the loop over \<open>enumerate(paragraphs)\<close>, for one index and paragraph.\<close>

definition paragraph_issues :: "string \<Rightarrow> nat \<times> string \<Rightarrow> issue_rec list" where
  "paragraph_issues filename ip =
     (case ip of (idx, p) \<Rightarrow>
        if length (str_strip p) = 0 then []
        else map (jurisdiction_rec filename idx) (check_jurisdiction_paragraph p)
             @ map (ambiguity_rec filename idx) (detect_ambiguous_language p))"

text \<open>The parameter \<open>check_adgm\<close> of the source is never read and is left out.\<close>

definition summarize_issues :: "string list \<Rightarrow> string \<Rightarrow> issue_rec list" where
  "summarize_issues paragraphs filename =
     concat (map (paragraph_issues filename) (enumerate 0 paragraphs))
     @ map (signature_rec filename) (detect_missing_signature paragraphs)"

text \<open>The comment block of one issue; \<open>styles\<close> are the style names of the new document.\<close>

definition issue_block :: "string list \<Rightarrow> nat \<times> issue_rec \<Rightarrow> element list" where
  "issue_block styles ii =
     (case ii of (idx, iss) \<Rightarrow>
        [BoldParagraph (''['' @ str_nat idx @ ''] Document: '' @ document iss
                        @ '' | Section: '' @ section_ref iss),
         Paragraph (''Issue: '' @ issue iss)]
        @ (if truthy (suggestion iss)
           then [if ''Intense Quote'' \<in> set styles
                 then QuoteParagraph (''Suggestion: '' @ py_str (suggestion iss))
                 else Paragraph (''Suggestion: '' @ py_str (suggestion iss))]
           else [])
        @ (case citation_key iss of
             None \<Rightarrow> []
           | Some k \<Rightarrow> if truthy k then [Paragraph (''Citation: '' @ py_str k)] else []))"

definition comments_section :: "string list \<Rightarrow> issue_rec list \<Rightarrow> element list" where
  "comments_section styles issues =
     [PageBreak, Heading ''Automated Review Comments / Issues'' 1]
     @ concat (map (issue_block styles) (enumerate 1 issues))"

text \<open>The strings handed to the library when an element is added.\<close>

fun given_texts :: "element \<Rightarrow> string list" where
  "given_texts (Paragraph t) = [t]"
| "given_texts (BoldParagraph t) = [t]"
| "given_texts (QuoteParagraph t) = [t]"
| "given_texts PageBreak = []"
| "given_texts (Heading t level) = [t]"

text \<open>
  \<open>create_reviewed_docx\<close> returns the files after \<open>out.save(reviewed_path)\<close>; writing the
  file itself is taken to succeed. The first string that the library refuses raises
  \<open>ValueError\<close> while the new document is built, before anything is saved, so the
  function fails without writing exactly when some string of the body is refused.
\<close>

definition create_reviewed_docx ::
  "(docx \<Rightarrow> string list) \<Rightarrow> (string \<Rightarrow> bool) \<Rightarrow> string list \<Rightarrow> files \<Rightarrow> string
     \<Rightarrow> string \<Rightarrow> issue_rec list \<Rightarrow> error + files" where
  "create_reviewed_docx texts accepts styles fs original_path reviewed_path issues =
     (case Document fs original_path of
        Inl e \<Rightarrow> Inl e
      | Inr src \<Rightarrow>
          (let out = map Paragraph (texts src) @ comments_section styles issues in
           if list_all accepts (concat (map given_texts out))
           then Inr (fs(reviewed_path \<mapsto> out))
           else Inl ValueError))"

definition summarise_for_json :: "issue_rec list \<Rightarrow> issue_rec list" where
  "summarise_for_json issues = issues"


section \<open>app.py\<close>

text \<open>
  The script keeps every file in one fresh workspace directory, so a path is modelled by
  its file name there (\<open>p.name\<close>), and the \<open>path\<close> entry of a document summary, which
  is that name behind the directory, is left out. Each loop of the script is a recursive
  function over the list \<open>docs\<close> that carries what the loop has appended so far. No loop
  has a handler: an exception raised in the body leaves the loop, and the script, at
  once, and the result \<open>Inl\<close> holds it together with what the loop had appended (and, in
  the parsing loop, displayed) until then.
\<close>

record doc_summary =
  filename :: string
  detected_type :: string
  paragraph_count :: nat

definition summary_of :: "string \<Rightarrow> string list \<Rightarrow> doc_summary" where
  "summary_of p text_paragraphs =
     \<lparr>filename = p,
      detected_type = detect_doc_type_by_text (str_join ''\<newline>'' text_paragraphs),
      paragraph_count = length text_paragraphs\<rparr>"

fun parse_docs ::
  "(docx \<Rightarrow> string list) \<Rightarrow> files \<Rightarrow> doc_summary list \<Rightarrow> string list
     \<Rightarrow> (error \<times> doc_summary list) + doc_summary list" where
  "parse_docs texts fs doc_summaries [] = Inr doc_summaries"
| "parse_docs texts fs doc_summaries (p # docs) =
     (case extract_docx_paragraphs texts fs p of
        Inl e \<Rightarrow> Inl (e, doc_summaries)
      | Inr text_paragraphs \<Rightarrow>
          parse_docs texts fs (doc_summaries @ [summary_of p text_paragraphs]) docs)"

definition present :: "string list \<Rightarrow> string list \<Rightarrow> string list" where
  "present required uploaded_types = filter (\<lambda>r. r \<in> set uploaded_types) required"

definition missing :: "string list \<Rightarrow> string list \<Rightarrow> string list" where
  "missing required uploaded_types = filter (\<lambda>r. r \<notin> set uploaded_types) required"

fun gather_issues ::
  "(docx \<Rightarrow> string list) \<Rightarrow> files \<Rightarrow> issue_rec list \<Rightarrow> string list
     \<Rightarrow> (error \<times> issue_rec list) + issue_rec list" where
  "gather_issues texts fs all_issues [] = Inr all_issues"
| "gather_issues texts fs all_issues (p # docs) =
     (case extract_docx_paragraphs texts fs p of
        Inl e \<Rightarrow> Inl (e, all_issues)
      | Inr paras \<Rightarrow> gather_issues texts fs (all_issues @ summarize_issues paras p) docs)"

definition reviewed_name :: "string \<Rightarrow> string" where
  "reviewed_name name = ''reviewed_'' @ name"

fun export_reviewed ::
  "(docx \<Rightarrow> string list) \<Rightarrow> (string \<Rightarrow> bool) \<Rightarrow> string list \<Rightarrow> files \<Rightarrow> issue_rec list
     \<Rightarrow> string list \<Rightarrow> (error \<times> files) + files" where
  "export_reviewed texts accepts styles fs all_issues [] = Inr fs"
| "export_reviewed texts accepts styles fs all_issues (p # docs) =
     (case create_reviewed_docx texts accepts styles fs p (reviewed_name p) all_issues of
        Inl e \<Rightarrow> Inl (e, fs)
      | Inr fs' \<Rightarrow> export_reviewed texts accepts styles fs' all_issues docs)"

text \<open>The dictionary \<open>json_summary\<close>, which is written as the report.\<close>

record json_summary =
  process_name :: string
  documents_uploaded :: nat
  required_documents :: "nat option"
  missing_documents :: "string list"
  issues_found :: "issue_rec list"

text \<open>
  One run of the script with the button pressed: the parsing loop, the checklist, the
  analysis loop, the export loop and the report, in this order. \<open>process\<close> is the choice
  made in the select box. The result is the state in which the run ends: the summaries
  displayed, the issues gathered, the files of the workspace, the report if it was
  written, and the exception if one ended the run.
\<close>

record run_state =
  shown_summaries :: "doc_summary list"
  gathered_issues :: "issue_rec list"
  workspace_files :: files
  json_report :: "json_summary option"
  raised :: "error option"

definition run_script ::
  "(docx \<Rightarrow> string list) \<Rightarrow> (string \<Rightarrow> bool) \<Rightarrow> string list \<Rightarrow> string \<Rightarrow> files
     \<Rightarrow> string list \<Rightarrow> run_state" where
  "run_script texts accepts styles process fs docs =
     (case parse_docs texts fs [] docs of
        Inl (e, doc_summaries) \<Rightarrow>
          \<lparr>shown_summaries = doc_summaries, gathered_issues = [], workspace_files = fs,
           json_report = None, raised = Some e\<rparr>
      | Inr doc_summaries \<Rightarrow>
          (case gather_issues texts fs [] docs of
             Inl (e, all_issues) \<Rightarrow>
               \<lparr>shown_summaries = doc_summaries, gathered_issues = all_issues,
                workspace_files = fs, json_report = None, raised = Some e\<rparr>
           | Inr all_issues \<Rightarrow>
               (case export_reviewed texts accepts styles fs all_issues docs of
                  Inl (e, fs') \<Rightarrow>
                    \<lparr>shown_summaries = doc_summaries, gathered_issues = all_issues,
                     workspace_files = fs', json_report = None, raised = Some e\<rparr>
                | Inr fs' \<Rightarrow>
                    \<lparr>shown_summaries = doc_summaries, gathered_issues = all_issues,
                     workspace_files = fs',
                     json_report =
                       Some \<lparr>process_name =
                               (if process = ''Company Incorporation''
                                then ''Company Incorporation'' else ''Unknown''),
                             documents_uploaded = length docs,
                             required_documents =
                               (if process = ''Company Incorporation''
                                then Some (length COMPANY_INCORPORATION_CHECKLIST)
                                else None),
                             missing_documents =
                               (if process = ''Company Incorporation''
                                then missing COMPANY_INCORPORATION_CHECKLIST
                                       (map detected_type doc_summaries)
                                else []),
                             issues_found = all_issues\<rparr>,
                     raised = None\<rparr>)))"


section \<open>Notions of the specification and example inputs\<close>

text \<open>The eight labels of the data model.\<close>

definition DOCUMENT_LABELS :: "string list" where
  "DOCUMENT_LABELS =
     [''Articles of Association'',
      ''Memorandum of Association'',
      ''Board Resolution Template'',
      ''Incorporation Application Form'',
      ''Register of Members and Directors'',
      ''UBO Declaration Form'',
      ''Commercial Agreement'',
      ''Unknown'']"

text \<open>
  The classifier as the specification words it: an ordered list of keyword predicates
  with their labels, the first predicate that holds of the lower-cased text decides, and
  the \<open>agreement\<close> test and \<open>Unknown\<close> are the fallbacks.
\<close>

definition keyword_rules :: "((string \<Rightarrow> bool) \<times> string) list" where
  "keyword_rules =
     [(\<lambda>txt. contains ''articles of association'' txt
              \<or> (contains ''article'' txt \<and> contains ''association'' txt),
       ''Articles of Association''),
      (\<lambda>txt. contains ''memorandum of association'' txt \<or> contains ''memorandum'' txt,
       ''Memorandum of Association''),
      (\<lambda>txt. contains ''board resolution'' txt,
       ''Board Resolution Template''),
      (\<lambda>txt. contains ''register of members'' txt \<or> contains ''register of directors'' txt,
       ''Register of Members and Directors''),
      (\<lambda>txt. contains ''ubo'' txt \<or> contains ''ultimate beneficial owner'' txt,
       ''UBO Declaration Form''),
      (\<lambda>txt. contains ''application for incorporation'' txt
              \<or> contains ''incorporation application'' txt,
       ''Incorporation Application Form'')]"

definition classify_first_match :: "string \<Rightarrow> string" where
  "classify_first_match text =
     (case find (\<lambda>rule. fst rule (str_lower text)) keyword_rules of
        Some rule \<Rightarrow> snd rule
      | None \<Rightarrow>
          if contains ''agreement'' (str_lower text) then ''Commercial Agreement''
          else ''Unknown'')"

text \<open>The document of the worked example.\<close>

definition example_paragraphs :: "string list" where
  "example_paragraphs =
     [''This agreement is governed by the federal courts of the UAE.'',
      ''The parties shall endeavour to perform in good faith.'',
      ''End of document.'']"


text \<open>An issue as the data model wants it.\<close>

definition well_formed_finding :: "finding \<Rightarrow> bool" where
  "well_formed_finding f \<longleftrightarrow>
     f_issue f \<noteq> [] \<and> f_severity f \<in> {''High'', ''Medium'', ''Low''}
     \<and> (case f_citation_key f of None \<Rightarrow> True | Some k \<Rightarrow> k \<in> dom ADGM_CITATIONS)"

definition well_formed_issue :: "issue_rec \<Rightarrow> bool" where
  "well_formed_issue i \<longleftrightarrow>
     issue i \<noteq> [] \<and> severity i \<in> {''High'', ''Medium'', ''Low''}
     \<and> (case citation_key i of
          None \<Rightarrow> True
        | Some PyNone \<Rightarrow> False
        | Some (PyStr k) \<Rightarrow> k \<in> dom ADGM_CITATIONS)"

text \<open>
  Inputs for the examples. The reader \<open>plain_texts\<close> returns one text for every
  element, the empty text for the paragraph of a page break; the acceptor
  \<open>xml_compatible\<close> refuses the strings that hold a control character other than tab,
  newline and carriage return. Then the style names of a new document and three
  workspaces, the last with a file name that holds the control character 1.
\<close>

fun element_text :: "element \<Rightarrow> string" where
  "element_text (Paragraph t) = t"
| "element_text (BoldParagraph t) = t"
| "element_text (QuoteParagraph t) = t"
| "element_text PageBreak = []"
| "element_text (Heading t level) = t"

definition plain_texts :: "docx \<Rightarrow> string list" where
  "plain_texts doc = map element_text doc"

definition xml_char :: "char \<Rightarrow> bool" where
  "xml_char c = (let n = (of_char c :: nat) in 32 \<le> n \<or> n = 9 \<or> n = 10 \<or> n = 13)"

definition xml_compatible :: "string \<Rightarrow> bool" where
  "xml_compatible s = list_all xml_char s"

definition example_styles :: "string list" where
  "example_styles = [''Normal'', ''Heading 1'', ''Intense Quote'']"

definition broken_files :: files where
  "broken_files = [''good.docx'' \<mapsto> [Paragraph ''Board resolution, signed by the directors.'']]"

definition example_files :: files where
  "example_files =
     [''a.docx'' \<mapsto> [Paragraph ''Signed: the Seller may deliver late.''],
      ''b.docx'' \<mapsto> [Paragraph ''Signature page.'']]"

definition control_name :: string where
  "control_name = CHR 0x01 # ''.docx''"

definition control_files :: files where
  "control_files = [control_name \<mapsto> [Paragraph ''The Seller may deliver late.'']]"

text \<open>The runs of the script on the three workspaces.\<close>

definition broken_run :: run_state where
  "broken_run =
     run_script plain_texts xml_compatible example_styles ''Company Incorporation''
       broken_files [''good.docx'', ''bad.docx'', ''good.docx'']"

definition example_run :: run_state where
  "example_run =
     run_script plain_texts xml_compatible example_styles ''Company Incorporation''
       example_files [''a.docx'', ''b.docx'']"

definition control_run :: run_state where
  "control_run =
     run_script plain_texts xml_compatible example_styles ''Company Incorporation''
       control_files [control_name]"

section \<open>Facts about the string model\<close>

lemma startswith_iff_prefix: "startswith s p \<longleftrightarrow> prefix p s"
  by (induction s p rule: startswith.induct) auto

lemma contains_iff_sublist: "contains sub s \<longleftrightarrow> sublist sub s"
  by (induction s) (simp_all add: startswith_iff_prefix sublist_Cons_right)

lemma of_char_lower_char:
  "of_char (lower_char c) = (let n = (of_char c :: nat) in
     if (65 \<le> n \<and> n \<le> 90) \<or> (192 \<le> n \<and> n \<le> 222 \<and> n \<noteq> 215) then n + 32 else n)"
  by (auto simp add: lower_char_def Let_def)

lemma isspace_lower_char: "isspace (lower_char c) = isspace c"
  unfolding isspace_def of_char_lower_char by (auto simp add: Let_def)

lemma split_from_lower:
  "split_from (map lower_char w) (map lower_char s) = map (map lower_char) (split_from w s)"
proof (induction s arbitrary: w)
  case Nil
  show ?case by simp
next
  case (Cons a s)
  from Cons[of "[]"] Cons[of "w @ [a]"] show ?case
    by (simp add: isspace_lower_char)
qed

lemma str_split_lower: "length (str_split (str_lower s)) = length (str_split s)"
  using split_from_lower[of "[]" s] by (simp add: str_split_def str_lower_def)

lemma last_n_suffix: "suffix (last_n n xs) xs"
  by (simp add: last_n_def suffix_drop)

lemma length_last_n: "length (last_n n xs) = min n (length xs)"
  by (simp add: last_n_def)

section \<open>The rules\<close>

lemma ambiguous_loop_find:
  "ambiguous_loop lower ms =
     (case find (\<lambda>m. contains m lower) ms of
        None \<Rightarrow> []
      | Some m \<Rightarrow> if length (str_split lower) < 200 then [ambiguous_finding m] else [])"
  by (induction ms) (auto split: option.splits)



text \<open>
  C4: the ambiguity rule returns at most one finding; it returns one exactly when the
  paragraph has fewer than 200 words and its lower-cased text contains a marker; the
  finding is the one for the first marker of the list that occurs, its severity is Low
  and its description quotes that marker.
\<close>

theorem detect_ambiguous_language_first_marker:
  "length (detect_ambiguous_language p) \<le> 1
   \<and> (detect_ambiguous_language p \<noteq> []
        \<longleftrightarrow> length (str_split p) < 200
            \<and> (\<exists>m \<in> set ambig_markers. contains m (str_lower p)))
   \<and> detect_ambiguous_language p =
       (case find (\<lambda>m. contains m (str_lower p)) ambig_markers of
          None \<Rightarrow> []
        | Some m \<Rightarrow> if length (str_split p) < 200 then [ambiguous_finding m] else [])
   \<and> f_severity (ambiguous_finding m) = ''Low''
   \<and> f_issue (ambiguous_finding m) =
       ''Ambiguous/non-binding language found ('' @ [CHR 0x27] @ m @ [CHR 0x27] @ '')''"
proof -
  have eq: "detect_ambiguous_language p =
       (case find (\<lambda>m. contains m (str_lower p)) ambig_markers of
          None \<Rightarrow> []
        | Some m \<Rightarrow> if length (str_split p) < 200 then [ambiguous_finding m] else [])"
    by (simp add: detect_ambiguous_language_def ambiguous_loop_find str_split_lower
        split: option.splits)
  have len: "length (detect_ambiguous_language p) \<le> 1"
    unfolding eq by (simp split: option.splits)
  have ne: "detect_ambiguous_language p \<noteq> []
        \<longleftrightarrow> length (str_split p) < 200
            \<and> (\<exists>m \<in> set ambig_markers. contains m (str_lower p))"
    unfolding eq by (auto simp add: find_None_iff find_Some_iff split: option.splits)
  show ?thesis using eq len ne by (simp add: ambiguous_finding_def)
qed

theorem detect_ambiguous_language_first_marker_witness:
  "detect_ambiguous_language ''Subject to clause 4, the Seller may use best efforts.''
     = [ambiguous_finding ''may'']
   \<and> find (\<lambda>m. contains m (str_lower ''Subject to clause 4, the Seller may use best efforts.''))
        ambig_markers = Some ''may''
   \<and> length (str_split ''Subject to clause 4, the Seller may use best efforts.'') < 200"
proof -
  have f: "find (\<lambda>m. contains m
              (str_lower ''Subject to clause 4, the Seller may use best efforts.''))
        ambig_markers = Some ''may''"
    by code_simp
  have l: "length (str_split ''Subject to clause 4, the Seller may use best efforts.'') < 200"
    by code_simp
  from detect_ambiguous_language_first_marker
         [of "''Subject to clause 4, the Seller may use best efforts.''"] f l
  show ?thesis by simp
qed

section \<open>The missing-signature rule\<close>

lemma paragraph_issues_section:
  "i \<in> set (paragraph_issues fn ip) \<Longrightarrow> section_ref i \<noteq> ''End of Document''"
  by (cases ip) (auto simp add: paragraph_issues_def jurisdiction_rec_def ambiguity_rec_def
      split: if_splits)

lemma filter_paragraph_issues:
  "filter (\<lambda>i. section_ref i = ''End of Document'')
     (concat (map (paragraph_issues fn) ips)) = []"
  by (induction ips) (auto simp add: filter_empty_conv dest: paragraph_issues_section)

text \<open>
  C5: the missing-signature rule returns at most one finding, and returns one exactly
  when none of \<open>signature\<close>, \<open>signed\<close>, \<open>authorized signatory\<close> occurs in the
  lower-cased text of the last ten paragraphs joined by newlines (all paragraphs when
  there are fewer than ten); the issue built from it is the only one of the document
  with section \<open>End of Document\<close>, and its severity is High.
\<close>

theorem detect_missing_signature_once:
  "length (detect_missing_signature ps) \<le> 1
   \<and> (detect_missing_signature ps \<noteq> []
        \<longleftrightarrow> \<not> contains ''signature'' (str_lower (str_join ''\<newline>'' (last_n 10 ps)))
            \<and> \<not> contains ''signed'' (str_lower (str_join ''\<newline>'' (last_n 10 ps)))
            \<and> \<not> contains ''authorized signatory''
                  (str_lower (str_join ''\<newline>'' (last_n 10 ps))))
   \<and> suffix (last_n 10 ps) ps \<and> length (last_n 10 ps) = min 10 (length ps)
   \<and> (detect_missing_signature ps = []
        \<or> detect_missing_signature ps = [missing_signature_finding])
   \<and> filter (\<lambda>i. section_ref i = ''End of Document'') (summarize_issues ps fn)
       = map (signature_rec fn) (detect_missing_signature ps)
   \<and> severity (signature_rec fn missing_signature_finding) = ''High''
   \<and> section_ref (signature_rec fn missing_signature_finding) = ''End of Document''"
proof -
  have a: "filter (\<lambda>i. section_ref i = ''End of Document'') (summarize_issues ps fn)
       = map (signature_rec fn) (detect_missing_signature ps)"
    by (simp add: summarize_issues_def filter_paragraph_issues signature_rec_def)
  have b: "severity (signature_rec fn missing_signature_finding) = ''High''"
    by (simp add: signature_rec_def missing_signature_finding_def)
  have c: "section_ref (signature_rec fn missing_signature_finding) = ''End of Document''"
    by (simp add: signature_rec_def)
  have d: "suffix (last_n 10 ps) ps \<and> length (last_n 10 ps) = min 10 (length ps)"
    by (simp add: last_n_suffix length_last_n)
  show ?thesis using a b c d
    by (simp add: detect_missing_signature_def Let_def)
qed

theorem detect_missing_signature_once_witness:
  "detect_missing_signature example_paragraphs = [missing_signature_finding]
   \<and> filter (\<lambda>i. section_ref i = ''End of Document'')
         (summarize_issues example_paragraphs ''docx'')
       = [signature_rec ''docx'' missing_signature_finding]
   \<and> detect_missing_signature [''Signed by the directors.''] = []
   \<and> detect_missing_signature (''Signature'' # replicate 10 ''x'')
       = [missing_signature_finding]"
proof -
  have a: "\<not> contains ''signature''
               (str_lower (str_join ''\<newline>'' (last_n 10 example_paragraphs)))
           \<and> \<not> contains ''signed''
               (str_lower (str_join ''\<newline>'' (last_n 10 example_paragraphs)))
           \<and> \<not> contains ''authorized signatory''
               (str_lower (str_join ''\<newline>'' (last_n 10 example_paragraphs)))"
    by code_simp
  have b: "detect_missing_signature [''Signed by the directors.''] = []"
    by code_simp
  have c: "detect_missing_signature (''Signature'' # replicate 10 ''x'')
       = [missing_signature_finding]"
    by code_simp
  from detect_missing_signature_once[of example_paragraphs "''docx''"] a
  have "detect_missing_signature example_paragraphs = [missing_signature_finding]
   \<and> filter (\<lambda>i. section_ref i = ''End of Document'')
         (summarize_issues example_paragraphs ''docx'')
       = [signature_rec ''docx'' missing_signature_finding]"
    by auto
  with b c show ?thesis by simp
qed

section \<open>The worked example\<close>

text \<open>
  C1, as stated, fails: on the example document the pipeline does not return four
  issues, and none of the returned issues has severity Medium. The first paragraph has
  neither \<open>jurisdiction\<close> nor \<open>governing law\<close> in it, so the second jurisdiction
  check stays silent.
\<close>

theorem summarize_issues_example_not_four:
  "length (summarize_issues example_paragraphs ''docx'') \<noteq> 4
   \<and> ''Medium'' \<notin> set (map severity (summarize_issues example_paragraphs ''docx''))"
  by code_simp

text \<open>
  C1, amended: on the example document the pipeline returns exactly three issues, the
  High federal-courts issue for paragraph 1, the Low ambiguity issue for paragraph 2
  that quotes \<open>endeavour to\<close>, and the High missing-signature issue.
\<close>

theorem summarize_issues_example_three:
  "summarize_issues example_paragraphs fn =
     [\<lparr>document = fn,
       section_ref = ''Paragraph 1'',
       issue = ''References UAE Federal Courts instead of ADGM jurisdiction.'',
       severity = ''High'',
       suggestion =
         PyStr ''Replace jurisdiction clause to reference ADGM Courts/Jurisdiction.'',
       citation_key = Some (PyStr ''companies_regulation_jurisdiction'')\<rparr>,
      \<lparr>document = fn,
       section_ref = ''Paragraph 2'',
       issue = ''Ambiguous/non-binding language found ('' @ [CHR 0x27] @ ''endeavour to''
                 @ [CHR 0x27] @ '')'',
       severity = ''Low'',
       suggestion =
         PyStr ''Consider replacing ambiguous phrasing with clear, binding obligations.'',
       citation_key = None\<rparr>,
      \<lparr>document = fn,
       section_ref = ''End of Document'',
       issue = ''No signature block or signatory section detected near end of document.'',
       severity = ''High'',
       suggestion = PyStr ''Add signatory block with name, designation and date.'',
       citation_key = None\<rparr>]"
  by code_simp

section \<open>Checklist verification\<close>

text \<open>
  C6: the present and missing lists are disjoint, together they hold exactly the
  required labels, both are subsequences of the required list, a required label is
  present iff it was detected and missing iff it was not, a label detected several
  times is present as often as the required list has it, and duplicates among the
  detected labels change neither list.
\<close>

theorem checklist_partition:
  "set (present required uploaded_types) \<inter> set (missing required uploaded_types) = {}
   \<and> set (present required uploaded_types) \<union> set (missing required uploaded_types)
       = set required
   \<and> subseq (present required uploaded_types) required
   \<and> subseq (missing required uploaded_types) required
   \<and> (r \<in> set (present required uploaded_types)
        \<longleftrightarrow> r \<in> set required \<and> r \<in> set uploaded_types)
   \<and> (r \<in> set (missing required uploaded_types)
        \<longleftrightarrow> r \<in> set required \<and> r \<notin> set uploaded_types)
   \<and> count_list (present required uploaded_types) r
       = (if r \<in> set uploaded_types then count_list required r else 0)
   \<and> present required uploaded_types = present required (remdups uploaded_types)
   \<and> missing required uploaded_types = missing required (remdups uploaded_types)"
proof -
  have cnt: "count_list (filter (\<lambda>r. r \<in> set uploaded_types) required) r
       = (if r \<in> set uploaded_types then count_list required r else 0)"
    by (induction required) auto
  show ?thesis using cnt by (auto simp add: present_def missing_def)
qed

theorem checklist_partition_witness:
  "present [''A'', ''B'', ''C''] [''B'', ''B''] = [''B'']
   \<and> missing [''A'', ''B'', ''C''] [''B'', ''B''] = [''A'', ''C'']
   \<and> set (present [''A'', ''B'', ''C''] [''B'', ''B''])
         \<inter> set (missing [''A'', ''B'', ''C''] [''B'', ''B'']) = {}
   \<and> count_list (present [''A'', ''B'', ''C''] [''B'', ''B'']) ''B'' = 1"
proof -
  have a: "present [''A'', ''B'', ''C''] [''B'', ''B''] = [''B'']"
    by (simp add: present_def)
  have b: "missing [''A'', ''B'', ''C''] [''B'', ''B''] = [''A'', ''C'']"
    by (simp add: missing_def)
  from checklist_partition[of "[''A'', ''B'', ''C'']" "[''B'', ''B'']" "''B''"]
  have d: "set (present [''A'', ''B'', ''C''] [''B'', ''B''])
             \<inter> set (missing [''A'', ''B'', ''C''] [''B'', ''B'']) = {}"
    and c: "count_list (present [''A'', ''B'', ''C''] [''B'', ''B'']) ''B''
             = (if ''B'' \<in> set [''B'', ''B''] then count_list [''A'', ''B'', ''C''] ''B''
                else 0)"
    by blast+
  from c have c': "count_list (present [''A'', ''B'', ''C''] [''B'', ''B'']) ''B'' = 1"
    by simp
  from a b d c' show ?thesis by (intro conjI)
qed

section \<open>Classification\<close>

text \<open>
  C7: for every text the classifier returns the label of the first keyword predicate
  that holds of the lower-cased text, \<open>Commercial Agreement\<close> when none holds and
  \<open>agreement\<close> occurs, and \<open>Unknown\<close> otherwise; the result is always one of the
  eight labels.
\<close>

theorem detect_doc_type_by_text_total:
  "detect_doc_type_by_text text = classify_first_match text
   \<and> detect_doc_type_by_text text \<in> set DOCUMENT_LABELS"
  by (simp add: detect_doc_type_by_text_def classify_first_match_def keyword_rules_def
      DOCUMENT_LABELS_def Let_def)

theorem detect_doc_type_by_text_total_witness:
  "detect_doc_type_by_text ''Article 4 of the Association Agreement''
     = ''Articles of Association''
   \<and> classify_first_match ''Article 4 of the Association Agreement''
       = ''Articles of Association''
   \<and> detect_doc_type_by_text ''Share Purchase AGREEMENT'' = ''Commercial Agreement''
   \<and> detect_doc_type_by_text [] = ''Unknown''
   \<and> ''Articles of Association'' \<in> set DOCUMENT_LABELS"
proof -
  have a: "detect_doc_type_by_text ''Article 4 of the Association Agreement''
     = ''Articles of Association''"
    by code_simp
  have b: "detect_doc_type_by_text ''Share Purchase AGREEMENT'' = ''Commercial Agreement''"
    by code_simp
  have c: "detect_doc_type_by_text [] = ''Unknown''"
    by code_simp
  from detect_doc_type_by_text_total[of "''Article 4 of the Association Agreement''"]
  have e: "detect_doc_type_by_text ''Article 4 of the Association Agreement''
             = classify_first_match ''Article 4 of the Association Agreement''"
    and m: "detect_doc_type_by_text ''Article 4 of the Association Agreement''
             \<in> set DOCUMENT_LABELS"
    by blast+
  from e a have e': "classify_first_match ''Article 4 of the Association Agreement''
             = ''Articles of Association''"
    by simp
  from m a have m': "''Articles of Association'' \<in> set DOCUMENT_LABELS"
    by simp
  from a e' b c m' show ?thesis by (intro conjI)
qed

section \<open>Well-formed issues\<close>

lemma check_jurisdiction_paragraph_wf:
  "f \<in> set (check_jurisdiction_paragraph p) \<Longrightarrow> well_formed_finding f
     \<and> f_citation_key f = Some ''companies_regulation_jurisdiction''"
  by (auto simp add: check_jurisdiction_paragraph_def Let_def well_formed_finding_def
      federal_courts_finding_def missing_adgm_finding_def ADGM_CITATIONS_def
      split: if_splits)

lemma ambiguous_loop_wf:
  "f \<in> set (ambiguous_loop lower ms) \<Longrightarrow> well_formed_finding f \<and> f_citation_key f = None"
  by (induction ms) (auto simp add: well_formed_finding_def ambiguous_finding_def
      split: if_splits)

lemma detect_missing_signature_wf:
  "f \<in> set (detect_missing_signature ps) \<Longrightarrow> well_formed_finding f \<and> f_citation_key f = None"
  by (auto simp add: detect_missing_signature_def Let_def well_formed_finding_def
      missing_signature_finding_def split: if_splits)

lemma paragraph_issues_wf:
  "i \<in> set (paragraph_issues fn ip) \<Longrightarrow> well_formed_issue i"
  by (cases ip)
     (auto simp add: paragraph_issues_def well_formed_issue_def jurisdiction_rec_def
        ambiguity_rec_def get_citation_key_def well_formed_finding_def
        detect_ambiguous_language_def
        dest!: check_jurisdiction_paragraph_wf ambiguous_loop_wf split: if_splits)

lemma summarize_issues_wf:
  "i \<in> set (summarize_issues ps fn) \<Longrightarrow> well_formed_issue i"
  by (auto simp add: summarize_issues_def well_formed_issue_def signature_rec_def
        well_formed_finding_def
      dest: paragraph_issues_wf dest!: detect_missing_signature_wf)

lemma gather_issues_concat:
  "gather_issues texts fs acc docs = Inr all \<Longrightarrow>
   all = acc @ concat (map (\<lambda>p. summarize_issues
                                 (projr (extract_docx_paragraphs texts fs p)) p) docs)"
proof (induction docs arbitrary: acc)
  case Nil
  then show ?case by simp
next
  case (Cons p docs)
  then obtain paras where ex: "extract_docx_paragraphs texts fs p = Inr paras"
    and rest: "gather_issues texts fs (acc @ summarize_issues paras p) docs = Inr all"
    by (auto split: sum.splits)
  from Cons.IH[OF rest] ex show ?case by simp
qed

text \<open>
  C9: every finding of the three rules and every issue of \<open>summarize_issues\<close> and of the
  batch-wide list has a description that is not empty and a severity among High, Medium
  and Low, and a citation key, where there is one, is a key of \<open>ADGM_CITATIONS\<close>; the
  batch-wide list is the concatenation of the lists built per document, and
  \<open>summarise_for_json\<close> hands the issues on as they are.
\<close>

theorem issues_well_formed:
  "(\<forall>f \<in> set (check_jurisdiction_paragraph p) \<union> set (detect_ambiguous_language p)
          \<union> set (detect_missing_signature ps). well_formed_finding f)
   \<and> (\<forall>i \<in> set (summarize_issues ps fn). well_formed_issue i)
   \<and> (gather_issues texts fs [] docs = Inr all \<longrightarrow>
        (\<forall>i \<in> set all. well_formed_issue i)
        \<and> all = concat (map (\<lambda>d. summarize_issues
                                    (projr (extract_docx_paragraphs texts fs d)) d) docs))
   \<and> summarise_for_json all = all"
proof -
  have a: "\<forall>f \<in> set (check_jurisdiction_paragraph p) \<union> set (detect_ambiguous_language p)
          \<union> set (detect_missing_signature ps). well_formed_finding f"
    using check_jurisdiction_paragraph_wf ambiguous_loop_wf detect_missing_signature_wf
    by (auto simp add: detect_ambiguous_language_def)
  have b: "\<forall>i \<in> set (summarize_issues ps fn). well_formed_issue i"
    using summarize_issues_wf by blast
  have c: "gather_issues texts fs [] docs = Inr all \<longrightarrow>
        (\<forall>i \<in> set all. well_formed_issue i)
        \<and> all = concat (map (\<lambda>d. summarize_issues
                                    (projr (extract_docx_paragraphs texts fs d)) d) docs)"
  proof
    assume g: "gather_issues texts fs [] docs = Inr all"
    from gather_issues_concat[OF g]
    have eq: "all = concat (map (\<lambda>d. summarize_issues
                                    (projr (extract_docx_paragraphs texts fs d)) d) docs)"
      by simp
    have "\<forall>i \<in> set all. well_formed_issue i"
      by (subst eq) (auto dest: summarize_issues_wf)
    with eq show "(\<forall>i \<in> set all. well_formed_issue i)
        \<and> all = concat (map (\<lambda>d. summarize_issues
                                    (projr (extract_docx_paragraphs texts fs d)) d) docs)"
      by simp
  qed
  from a b c show ?thesis by (simp add: summarise_for_json_def)
qed

lemma example_gather:
  "gather_issues plain_texts example_files [] [''a.docx'', ''b.docx'']
     = Inr [ambiguity_rec ''a.docx'' 0 (ambiguous_finding ''may'')]"
  by code_simp

theorem issues_well_formed_witness:
  "check_jurisdiction_paragraph ''Governing law: the federal courts of the UAE.''
     = [federal_courts_finding, missing_adgm_finding]
   \<and> well_formed_finding federal_courts_finding \<and> well_formed_finding missing_adgm_finding
   \<and> gather_issues plain_texts example_files [] [''a.docx'', ''b.docx'']
       = Inr [ambiguity_rec ''a.docx'' 0 (ambiguous_finding ''may'')]
   \<and> well_formed_issue (ambiguity_rec ''a.docx'' 0 (ambiguous_finding ''may''))"
proof -
  have j: "check_jurisdiction_paragraph ''Governing law: the federal courts of the UAE.''
     = [federal_courts_finding, missing_adgm_finding]"
    by code_simp
  from issues_well_formed
         [of "''Governing law: the federal courts of the UAE.''" "[]" "''docx''"
             plain_texts example_files "[''a.docx'', ''b.docx'']"
             "[ambiguity_rec ''a.docx'' 0 (ambiguous_finding ''may'')]"]
       j example_gather
  show ?thesis by simp
qed

section \<open>The reviewed document\<close>

lemma given_texts_paragraphs: "concat (map (given_texts \<circ> Paragraph) ts) = ts"
  by (induction ts) simp_all

lemma str_strip_heading:
  "str_strip ''Automated Review Comments / Issues'' = ''Automated Review Comments / Issues''"
  by code_simp

lemma create_reviewed_docx_empty:
  "fs original_path = Some src \<Longrightarrow> list_all accepts (texts src) \<Longrightarrow>
   accepts ''Automated Review Comments / Issues'' \<Longrightarrow>
   create_reviewed_docx texts accepts styles fs original_path reviewed_path []
     = Inr (fs(reviewed_path \<mapsto>
              map Paragraph (texts src)
              @ [PageBreak, Heading ''Automated Review Comments / Issues'' 1]))"
  by (simp add: create_reviewed_docx_def Document_def comments_section_def Let_def
      given_texts_paragraphs)

lemma extract_reviewed_empty:
  assumes "fs original_path = Some src"
    and "texts out = texts src @ [pb, ''Automated Review Comments / Issues'']"
    and "str_strip pb = []"
  shows "\<exists>ps. extract_docx_paragraphs texts fs original_path = Inr ps
     \<and> extract_docx_paragraphs texts (fs(reviewed_path \<mapsto> out)) reviewed_path
         = Inr (ps @ [''Automated Review Comments / Issues''])"
  using assms
  by (simp add: extract_docx_paragraphs_def Document_def str_strip_heading)

text \<open>
  C8: for a readable original whose texts the library takes back, and an empty list of
  issues, \<open>create_reviewed_docx\<close> succeeds, also when the original has no paragraph, and
  writes a document that holds the text of every original paragraph in order, then the
  page break and the heading, and no issue block. Where the library reads the page
  break back as a paragraph of blank text, the written document has two paragraphs more
  than the original, and its paragraph count as \<open>extract_docx_paragraphs\<close> and the
  document summary measure it, which leaves blank paragraphs out, is that of the
  original plus one for the heading.
\<close>

theorem create_reviewed_docx_no_issues:
  "fs original_path = Some src \<Longrightarrow>
   list_all accepts (texts src) \<Longrightarrow>
   accepts ''Automated Review Comments / Issues'' \<Longrightarrow>
   texts (map Paragraph (texts src)
          @ [PageBreak, Heading ''Automated Review Comments / Issues'' 1])
     = texts src @ [pb, ''Automated Review Comments / Issues''] \<Longrightarrow>
   str_strip pb = [] \<Longrightarrow>
   create_reviewed_docx texts accepts styles fs original_path reviewed_path []
     = Inr (fs(reviewed_path \<mapsto>
              map Paragraph (texts src)
              @ [PageBreak, Heading ''Automated Review Comments / Issues'' 1]))
   \<and> comments_section styles [] = [PageBreak, Heading ''Automated Review Comments / Issues'' 1]
   \<and> length (texts (map Paragraph (texts src)
                     @ [PageBreak, Heading ''Automated Review Comments / Issues'' 1]))
       = length (texts src) + 2
   \<and> (\<exists>ps. extract_docx_paragraphs texts fs original_path = Inr ps
          \<and> extract_docx_paragraphs texts
               (fs(reviewed_path \<mapsto>
                     map Paragraph (texts src)
                     @ [PageBreak, Heading ''Automated Review Comments / Issues'' 1]))
               reviewed_path
              = Inr (ps @ [''Automated Review Comments / Issues''])
          \<and> paragraph_count
               (summary_of reviewed_path (ps @ [''Automated Review Comments / Issues'']))
              = paragraph_count (summary_of original_path ps) + 1)"
proof -
  assume rd: "fs original_path = Some src"
    and ok: "list_all accepts (texts src)"
    and okh: "accepts ''Automated Review Comments / Issues''"
    and rb: "texts (map Paragraph (texts src)
          @ [PageBreak, Heading ''Automated Review Comments / Issues'' 1])
     = texts src @ [pb, ''Automated Review Comments / Issues'']"
    and blank: "str_strip pb = []"
  from rd ok okh
  have a: "create_reviewed_docx texts accepts styles fs original_path reviewed_path []
     = Inr (fs(reviewed_path \<mapsto>
              map Paragraph (texts src)
              @ [PageBreak, Heading ''Automated Review Comments / Issues'' 1]))"
    by (rule create_reviewed_docx_empty)
  have b: "comments_section styles []
             = [PageBreak, Heading ''Automated Review Comments / Issues'' 1]"
    by (simp add: comments_section_def)
  from rb have c: "length (texts (map Paragraph (texts src)
                     @ [PageBreak, Heading ''Automated Review Comments / Issues'' 1]))
       = length (texts src) + 2"
    by simp
  from extract_reviewed_empty
         [where fs = fs and original_path = original_path and src = src and texts = texts
            and pb = pb and reviewed_path = reviewed_path
            and out = "map Paragraph (texts src)
                       @ [PageBreak, Heading ''Automated Review Comments / Issues'' 1]"]
       rd rb blank
  obtain ps where
    d1: "extract_docx_paragraphs texts fs original_path = Inr ps"
    and d2: "extract_docx_paragraphs texts
               (fs(reviewed_path \<mapsto>
                     map Paragraph (texts src)
                     @ [PageBreak, Heading ''Automated Review Comments / Issues'' 1]))
               reviewed_path
              = Inr (ps @ [''Automated Review Comments / Issues''])"
    by blast
  have d3: "paragraph_count
               (summary_of reviewed_path (ps @ [''Automated Review Comments / Issues'']))
              = paragraph_count (summary_of original_path ps) + 1"
    by (simp add: summary_of_def)
  from a b c d1 d2 d3 show ?thesis by blast
qed

theorem create_reviewed_docx_no_issues_witness:
  "create_reviewed_docx plain_texts xml_compatible example_styles [''empty.docx'' \<mapsto> []]
        ''empty.docx'' ''reviewed_empty.docx'' []
      = Inr ([''empty.docx'' \<mapsto> [],
              ''reviewed_empty.docx'' \<mapsto>
                [PageBreak, Heading ''Automated Review Comments / Issues'' 1]])
   \<and> extract_docx_paragraphs plain_texts [''empty.docx'' \<mapsto> []] ''empty.docx'' = Inr []
   \<and> extract_docx_paragraphs plain_texts
        ([''empty.docx'' \<mapsto> [],
          ''reviewed_empty.docx'' \<mapsto>
            [PageBreak, Heading ''Automated Review Comments / Issues'' 1]])
        ''reviewed_empty.docx''
       = Inr [''Automated Review Comments / Issues'']
   \<and> length (plain_texts [PageBreak, Heading ''Automated Review Comments / Issues'' 1]) = 2"
proof -
  have h1: "[''empty.docx'' \<mapsto> ([]::docx)] ''empty.docx'' = Some []" by simp
  have h2: "list_all xml_compatible (plain_texts [])" by (simp add: plain_texts_def)
  have h3: "xml_compatible ''Automated Review Comments / Issues''" by code_simp
  have h4: "plain_texts (map Paragraph (plain_texts [])
              @ [PageBreak, Heading ''Automated Review Comments / Issues'' 1])
            = plain_texts [] @ [[], ''Automated Review Comments / Issues'']"
    by (simp add: plain_texts_def)
  have h5: "str_strip [] = []" by (simp add: str_strip_def)
  have e: "extract_docx_paragraphs plain_texts [''empty.docx'' \<mapsto> []] ''empty.docx'' = Inr []"
    by (simp add: extract_docx_paragraphs_def Document_def plain_texts_def)
  from create_reviewed_docx_no_issues
         [where fs = "[''empty.docx'' \<mapsto> []]" and original_path = "''empty.docx''"
            and src = "[]" and texts = plain_texts and accepts = xml_compatible
            and styles = example_styles and reviewed_path = "''reviewed_empty.docx''"
            and pb = "[]", OF h1 h2 h3 h4 h5] e
  show ?thesis by (simp add: plain_texts_def)
qed

section \<open>Unreadable documents\<close>

lemma extract_docx_paragraphs_None:
  "fs p = None \<Longrightarrow> extract_docx_paragraphs texts fs p = Inl (ReadError p)"
  by (simp add: extract_docx_paragraphs_def Document_def)

lemma extract_docx_paragraphs_Some:
  "fs p \<noteq> None \<Longrightarrow> \<exists>paras. extract_docx_paragraphs texts fs p = Inr paras"
  by (auto simp add: extract_docx_paragraphs_def Document_def)

lemma parse_docs_unreadable:
  "\<forall>q \<in> set pre. fs q \<noteq> None \<Longrightarrow> fs p = None \<Longrightarrow>
   parse_docs texts fs acc (pre @ p # post)
     = Inl (ReadError p,
            acc @ map (\<lambda>q. summary_of q (projr (extract_docx_paragraphs texts fs q))) pre)"
proof (induction pre arbitrary: acc)
  case Nil
  then show ?case by (simp add: extract_docx_paragraphs_None)
next
  case (Cons q pre)
  from Cons.prems obtain paras where "extract_docx_paragraphs texts fs q = Inr paras"
    using extract_docx_paragraphs_Some[of fs q texts] by auto
  with Cons show ?case by simp
qed

text \<open>
  C2, amended: when a document of the batch cannot be read, and all documents before it
  can, the documents before it have been parsed, classified and displayed, and there the
  parsing loop and with it the whole run end with the \<open>ReadError\<close> of that document;
  the failing document and the documents after it get no summary, no issue is gathered,
  no reviewed copy is written and no report is produced.
\<close>

theorem run_aborts_at_first_unreadable:
  "docs = pre @ p # post \<Longrightarrow> \<forall>q \<in> set pre. fs q \<noteq> None \<Longrightarrow> fs p = None \<Longrightarrow>
   r = run_script texts accepts styles process fs docs \<Longrightarrow>
   parse_docs texts fs [] docs
     = Inl (ReadError p,
            map (\<lambda>q. summary_of q (projr (extract_docx_paragraphs texts fs q))) pre)
   \<and> raised r = Some (ReadError p)
   \<and> shown_summaries r
       = map (\<lambda>q. summary_of q (projr (extract_docx_paragraphs texts fs q))) pre
   \<and> gathered_issues r = []
   \<and> workspace_files r = fs
   \<and> json_report r = None"
  by (simp add: run_script_def parse_docs_unreadable)

lemma good_summary:
  "summary_of ''good.docx'' (projr (extract_docx_paragraphs plain_texts broken_files ''good.docx''))
     = \<lparr>filename = ''good.docx'', detected_type = ''Board Resolution Template'',
        paragraph_count = 1\<rparr>"
  by code_simp

theorem run_aborts_at_first_unreadable_witness:
  "broken_files ''good.docx'' = Some [Paragraph ''Board resolution, signed by the directors.'']
   \<and> broken_files ''bad.docx'' = None
   \<and> parse_docs plain_texts broken_files [] [''good.docx'', ''bad.docx'', ''good.docx'']
       = Inl (ReadError ''bad.docx'',
              [\<lparr>filename = ''good.docx'', detected_type = ''Board Resolution Template'',
                paragraph_count = 1\<rparr>])
   \<and> raised broken_run = Some (ReadError ''bad.docx'')
   \<and> shown_summaries broken_run
       = [\<lparr>filename = ''good.docx'', detected_type = ''Board Resolution Template'',
           paragraph_count = 1\<rparr>]
   \<and> gathered_issues broken_run = []
   \<and> json_report broken_run = None"
proof -
  have h0: "broken_files ''good.docx''
              = Some [Paragraph ''Board resolution, signed by the directors.'']"
    by (simp add: broken_files_def)
  then have h1: "\<forall>q \<in> set [''good.docx'']. broken_files q \<noteq> None"
    by simp
  have h2: "broken_files ''bad.docx'' = None"
    by (simp add: broken_files_def)
  have h3: "[''good.docx'', ''bad.docx'', ''good.docx''] = [''good.docx''] @ ''bad.docx'' # [''good.docx'']"
    by simp
  from run_aborts_at_first_unreadable
         [where docs = "[''good.docx'', ''bad.docx'', ''good.docx'']"
            and pre = "[''good.docx'']" and p = "''bad.docx''" and post = "[''good.docx'']"
            and fs = broken_files and texts = plain_texts and accepts = xml_compatible
            and styles = example_styles and process = "''Company Incorporation''"
            and r = broken_run, OF h3 h1 h2 broken_run_def]
       h0 h2 good_summary
  show ?thesis by simp
qed

text \<open>
  C2, as stated, fails: \<open>good.docx\<close> alone is parsed and classified, but in a batch
  behind the unreadable \<open>bad.docx\<close> it is never processed, and the run ends with the
  error and without a report.
\<close>

theorem batch_with_unreadable_document_aborts:
  "parse_docs plain_texts broken_files [] [''good.docx'']
     = Inr [\<lparr>filename = ''good.docx'', detected_type = ''Board Resolution Template'',
             paragraph_count = 1\<rparr>]
   \<and> parse_docs plain_texts broken_files [] [''bad.docx'', ''good.docx'']
       = Inl (ReadError ''bad.docx'', [])
   \<and> raised (run_script plain_texts xml_compatible example_styles ''Company Incorporation''
               broken_files [''bad.docx'', ''good.docx''])
       = Some (ReadError ''bad.docx'')
   \<and> shown_summaries
         (run_script plain_texts xml_compatible example_styles ''Company Incorporation''
            broken_files [''bad.docx'', ''good.docx''])
       = []
   \<and> json_report
         (run_script plain_texts xml_compatible example_styles ''Company Incorporation''
            broken_files [''bad.docx'', ''good.docx''])
       = None"
proof -
  have a: "parse_docs plain_texts broken_files [] [''good.docx'']
     = Inr [\<lparr>filename = ''good.docx'', detected_type = ''Board Resolution Template'',
             paragraph_count = 1\<rparr>]"
    by code_simp
  have b: "parse_docs plain_texts broken_files [] [''bad.docx'', ''good.docx'']
       = Inl (ReadError ''bad.docx'', [])"
    by (simp add: broken_files_def extract_docx_paragraphs_None)
  from a b show ?thesis by (simp add: run_script_def)
qed

section \<open>The export loop\<close>

lemma create_reviewed_docx_Inr:
  "create_reviewed_docx texts accepts styles fs p rp all = Inr fs' \<Longrightarrow>
   \<exists>src. fs p = Some src
     \<and> fs' = fs(rp \<mapsto> map Paragraph (texts src) @ comments_section styles all)"
  by (auto simp add: create_reviewed_docx_def Document_def Let_def
      split: option.splits if_splits)

lemma reviewed_name_inj: "reviewed_name a = reviewed_name b \<longleftrightarrow> a = b"
  by (simp add: reviewed_name_def)

lemma export_reviewed_step:
  "export_reviewed texts accepts styles fs all (d # docs) = Inr fs' \<Longrightarrow>
   \<exists>fs1. create_reviewed_docx texts accepts styles fs d (reviewed_name d) all = Inr fs1
     \<and> export_reviewed texts accepts styles fs1 all docs = Inr fs'"
  by (auto split: sum.splits)

lemma export_reviewed_other:
  "export_reviewed texts accepts styles fs all docs = Inr fs' \<Longrightarrow>
   n \<notin> reviewed_name ` set docs \<Longrightarrow> fs' n = fs n"
proof (induction docs arbitrary: fs)
  case Nil
  then show ?case by simp
next
  case (Cons d docs)
  from export_reviewed_step[OF Cons.prems(1)] obtain fs1 where
    c: "create_reviewed_docx texts accepts styles fs d (reviewed_name d) all = Inr fs1"
    and r: "export_reviewed texts accepts styles fs1 all docs = Inr fs'"
    by blast
  from Cons.prems(2) have n1: "n \<noteq> reviewed_name d" and n2: "n \<notin> reviewed_name ` set docs"
    by auto
  from Cons.IH[OF r n2] have "fs' n = fs1 n" .
  moreover from create_reviewed_docx_Inr[OF c] n1 have "fs1 n = fs n" by auto
  ultimately show ?case by simp
qed

lemma export_reviewed_keeps:
  "export_reviewed texts accepts styles fs all docs = Inr fs' \<Longrightarrow>
   fs' n = fs n \<or> (\<exists>src. fs' n = Some (map Paragraph src @ comments_section styles all))"
proof (induction docs arbitrary: fs)
  case Nil
  then show ?case by simp
next
  case (Cons d docs)
  from export_reviewed_step[OF Cons.prems] obtain fs1 where
    c: "create_reviewed_docx texts accepts styles fs d (reviewed_name d) all = Inr fs1"
    and r: "export_reviewed texts accepts styles fs1 all docs = Inr fs'"
    by blast
  from create_reviewed_docx_Inr[OF c] obtain srcd where
    f1: "fs1 = fs(reviewed_name d \<mapsto> map Paragraph (texts srcd) @ comments_section styles all)"
    by auto
  have "fs1 n = fs n \<or> (\<exists>src. fs1 n = Some (map Paragraph src @ comments_section styles all))"
  proof (cases "n = reviewed_name d")
    case True
    with f1 have "fs1 n = Some (map Paragraph (texts srcd) @ comments_section styles all)"
      by simp
    then show ?thesis by blast
  next
    case False
    with f1 show ?thesis by simp
  qed
  with Cons.IH[OF r] show ?case by auto
qed

lemma export_reviewed_written:
  "export_reviewed texts accepts styles fs all docs = Inr fs' \<Longrightarrow> p \<in> set docs \<Longrightarrow>
   \<exists>src. fs' (reviewed_name p) = Some (map Paragraph src @ comments_section styles all)"
proof (induction docs arbitrary: fs)
  case Nil
  then show ?case by simp
next
  case (Cons d docs)
  from export_reviewed_step[OF Cons.prems(1)] obtain fs1 where
    c: "create_reviewed_docx texts accepts styles fs d (reviewed_name d) all = Inr fs1"
    and r: "export_reviewed texts accepts styles fs1 all docs = Inr fs'"
    by blast
  show ?case
  proof (cases "p \<in> set docs")
    case True
    from Cons.IH[OF r True] show ?thesis .
  next
    case False
    with Cons.prems(2) have pd: "p = d" by simp
    from create_reviewed_docx_Inr[OF c] pd
    have "\<exists>src. fs1 (reviewed_name p)
            = Some (map Paragraph src @ comments_section styles all)"
      by auto
    with export_reviewed_keeps[OF r, of "reviewed_name p"] show ?thesis by auto
  qed
qed

lemma export_reviewed_exact:
  "export_reviewed texts accepts styles fs all docs = Inr fs' \<Longrightarrow>
   \<forall>q \<in> set docs. reviewed_name q \<notin> set docs \<Longrightarrow> p \<in> set docs \<Longrightarrow>
   \<exists>src. fs p = Some src
     \<and> fs' (reviewed_name p) = Some (map Paragraph (texts src) @ comments_section styles all)"
proof (induction docs arbitrary: fs)
  case Nil
  then show ?case by simp
next
  case (Cons d docs)
  from export_reviewed_step[OF Cons.prems(1)] obtain fs1 where
    c: "create_reviewed_docx texts accepts styles fs d (reviewed_name d) all = Inr fs1"
    and r: "export_reviewed texts accepts styles fs1 all docs = Inr fs'"
    by blast
  from create_reviewed_docx_Inr[OF c] obtain srcd where
    sd: "fs d = Some srcd"
    and f1: "fs1 = fs(reviewed_name d \<mapsto> map Paragraph (texts srcd) @ comments_section styles all)"
    by auto
  from Cons.prems(2) have nc: "\<forall>q \<in> set docs. reviewed_name q \<notin> set docs"
    and nd: "reviewed_name d \<notin> set docs"
    by auto
  show ?case
  proof (cases "p \<in> set docs")
    case True
    from Cons.IH[OF r nc True] obtain src where
      s1: "fs1 p = Some src"
      and s2: "fs' (reviewed_name p)
                 = Some (map Paragraph (texts src) @ comments_section styles all)"
      by auto
    from True nd have "p \<noteq> reviewed_name d" by auto
    with s1 f1 have "fs p = Some src" by simp
    with s2 show ?thesis by simp
  next
    case False
    with Cons.prems(3) have pd: "p = d" by simp
    from False pd have "reviewed_name d \<notin> reviewed_name ` set docs"
      by (auto simp add: reviewed_name_inj)
    from export_reviewed_other[OF r this] f1
    have "fs' (reviewed_name d)
            = Some (map Paragraph (texts srcd) @ comments_section styles all)"
      by simp
    with sd pd show ?thesis by simp
  qed
qed

lemma run_script_success:
  "raised (run_script texts accepts styles process fs docs) = None \<Longrightarrow>
   \<exists>sums all fs' j.
     parse_docs texts fs [] docs = Inr sums
     \<and> gather_issues texts fs [] docs = Inr all
     \<and> export_reviewed texts accepts styles fs all docs = Inr fs'
     \<and> run_script texts accepts styles process fs docs
         = \<lparr>shown_summaries = sums, gathered_issues = all, workspace_files = fs',
            json_report = Some j, raised = None\<rparr>
     \<and> issues_found j = all \<and> documents_uploaded j = length docs"
  by (auto simp add: run_script_def split: sum.splits prod.splits)

text \<open>
  C10: in a run that ends without an exception, the issue list handed to the export
  loop and written to the report is the one accumulated over all documents of the
  batch, and the reviewed copy of every uploaded document ends with the comments
  section of that whole list: the page break, the heading and one block for each issue
  of the batch. Where no upload bears the name of a reviewed copy, the part before the
  comments section is the text of the upload itself.
\<close>

theorem reviewed_copies_render_batch_issues:
  "r = run_script texts accepts styles process fs docs \<Longrightarrow> raised r = None \<Longrightarrow>
   p \<in> set docs \<Longrightarrow>
   gather_issues texts fs [] docs = Inr (gathered_issues r)
   \<and> gathered_issues r
       = concat (map (\<lambda>d. summarize_issues
                              (projr (extract_docx_paragraphs texts fs d)) d) docs)
   \<and> (\<exists>j. json_report r = Some j \<and> issues_found j = gathered_issues r)
   \<and> (\<exists>src. workspace_files r (reviewed_name p)
          = Some (map Paragraph src @ comments_section styles (gathered_issues r)))
   \<and> ((\<forall>q \<in> set docs. reviewed_name q \<notin> set docs) \<longrightarrow>
        (\<exists>src. fs p = Some src
           \<and> workspace_files r (reviewed_name p)
               = Some (map Paragraph (texts src)
                       @ comments_section styles (gathered_issues r))))
   \<and> comments_section styles (gathered_issues r)
       = [PageBreak, Heading ''Automated Review Comments / Issues'' 1]
         @ concat (map (issue_block styles) (enumerate 1 (gathered_issues r)))"
proof -
  assume rdef: "r = run_script texts accepts styles process fs docs"
    and ok: "raised r = None" and p: "p \<in> set docs"
  from ok rdef have "raised (run_script texts accepts styles process fs docs) = None"
    by simp
  from run_script_success[OF this] rdef obtain all fs' j where
    g: "gather_issues texts fs [] docs = Inr all"
    and e: "export_reviewed texts accepts styles fs all docs = Inr fs'"
    and i: "gathered_issues r = all" and w: "workspace_files r = fs'"
    and jr: "json_report r = Some j" and ji: "issues_found j = all"
    by auto
  from gather_issues_concat[OF g] i
  have c: "gathered_issues r
       = concat (map (\<lambda>d. summarize_issues
                              (projr (extract_docx_paragraphs texts fs d)) d) docs)"
    by simp
  from jr ji i have k: "\<exists>j. json_report r = Some j \<and> issues_found j = gathered_issues r"
    by simp
  from export_reviewed_written[OF e p] i w
  have x: "\<exists>src. workspace_files r (reviewed_name p)
          = Some (map Paragraph src @ comments_section styles (gathered_issues r))"
    by simp
  have y: "(\<forall>q \<in> set docs. reviewed_name q \<notin> set docs) \<longrightarrow>
        (\<exists>src. fs p = Some src
           \<and> workspace_files r (reviewed_name p)
               = Some (map Paragraph (texts src)
                       @ comments_section styles (gathered_issues r)))"
    using export_reviewed_exact[OF e _ p] i w by simp
  have z: "comments_section styles (gathered_issues r)
         = [PageBreak, Heading ''Automated Review Comments / Issues'' 1]
           @ concat (map (issue_block styles) (enumerate 1 (gathered_issues r)))"
    by (simp add: comments_section_def)
  from g i c k x y z show ?thesis by blast
qed

lemma example_run_values:
  "raised example_run = None
   \<and> gathered_issues example_run = [ambiguity_rec ''a.docx'' 0 (ambiguous_finding ''may'')]
   \<and> workspace_files example_run ''reviewed_b.docx''
       = Some [Paragraph ''Signature page.'',
               PageBreak,
               Heading ''Automated Review Comments / Issues'' 1,
               BoldParagraph ''[1] Document: a.docx | Section: Paragraph 1'',
               Paragraph (''Issue: Ambiguous/non-binding language found (''
                          @ [CHR 0x27] @ ''may'' @ [CHR 0x27] @ '')''),
               QuoteParagraph
                 ''Suggestion: Consider replacing ambiguous phrasing with clear, binding obligations.'']"
  by code_simp

text \<open>
  A file name that holds a control character makes the library refuse the first comment
  block: the run ends with \<open>ValueError\<close>, no reviewed copy and no report.
\<close>

lemma control_run_values:
  "raised control_run = Some ValueError
   \<and> workspace_files control_run (reviewed_name control_name) = None
   \<and> json_report control_run = None
   \<and> length (gathered_issues control_run) = 2"
  by code_simp

theorem reviewed_copies_render_batch_issues_witness:
  "raised example_run = None
   \<and> gathered_issues example_run = [ambiguity_rec ''a.docx'' 0 (ambiguous_finding ''may'')]
   \<and> workspace_files example_run (reviewed_name ''b.docx'')
       = Some (map Paragraph (plain_texts [Paragraph ''Signature page.''])
               @ comments_section example_styles (gathered_issues example_run))
   \<and> workspace_files example_run ''reviewed_b.docx''
       = Some [Paragraph ''Signature page.'',
               PageBreak,
               Heading ''Automated Review Comments / Issues'' 1,
               BoldParagraph ''[1] Document: a.docx | Section: Paragraph 1'',
               Paragraph (''Issue: Ambiguous/non-binding language found (''
                          @ [CHR 0x27] @ ''may'' @ [CHR 0x27] @ '')''),
               QuoteParagraph
                 ''Suggestion: Consider replacing ambiguous phrasing with clear, binding obligations.'']"
proof -
  from example_run_values have ok: "raised example_run = None" by simp
  have p: "''b.docx'' \<in> set [''a.docx'', ''b.docx'']" by simp
  have nc: "\<forall>q \<in> set [''a.docx'', ''b.docx'']. reviewed_name q \<notin> set [''a.docx'', ''b.docx'']"
    by (simp add: reviewed_name_def)
  have fb: "example_files ''b.docx'' = Some [Paragraph ''Signature page.'']"
    by (simp add: example_files_def)
  from reviewed_copies_render_batch_issues
         [where r = example_run and texts = plain_texts and accepts = xml_compatible
            and styles = example_styles and process = "''Company Incorporation''"
            and fs = example_files and docs = "[''a.docx'', ''b.docx'']"
            and p = "''b.docx''", OF example_run_def ok p] nc fb
  have cp: "workspace_files example_run (reviewed_name ''b.docx'')
       = Some (map Paragraph (plain_texts [Paragraph ''Signature page.''])
               @ comments_section example_styles (gathered_issues example_run))"
    by auto
  from example_run_values cp show ?thesis by blast
qed

end
